theory Spec2Isabelle
  imports Complex_Main
begin

unbundle bit_operations_syntax

section \<open>The BMP180 driver (BMP180\_driver.py)\<close>

text \<open>
  Python integers are unbounded, so every integer of the driver is an \<open>int\<close>:
  \<open>x >> n\<close> is \<open>drop_bit n x\<close> (the floor of \<open>x / 2 ^ n\<close>, also for negative \<open>x\<close>),
  \<open>x << n\<close> is \<open>push_bit n x\<close>, \<open>x | y\<close> is \<open>x OR y\<close> and \<open>x // y\<close> is \<open>x div y\<close>
  (both round towards minus infinity) once \<open>y\<close> has been checked against zero.
  A shift by a negative count raises \<open>ValueError\<close> in Python.

  The two floats the driver stores are quotients of an integer by \<open>10.0\<close> and by
  \<open>100.0\<close>. They are represented by the exact real quotient; the rounding of the
  quotient to a double is not part of the model. In the same way \<open>altitude\<close> is
  computed on the reals, with the exact logarithm.

  \<open>assert\<close> raises \<open>AssertionError\<close> (the interpreter is not run with \<open>-O\<close>), and
  \<open>time.sleep\<close> changes nothing the model observes.
\<close>

subsection \<open>Exceptions\<close>

datatype error =
    AssertionError
  | IOError
  | IndexError
  | ValueError
  | TypeError
  | ZeroDivisionError
  | StructError

subsection \<open>The object\<close>

text \<open>
  The fields of a constructed \<open>BMP180\<close> object. The calibration fields are integers
  in every constructed object (the constructor raises when they cannot be read);
  \<open>_pressure\<close> and \<open>_temperature\<close> start as \<open>None\<close>.
\<close>

record bmp180 =
  self_addr :: int
  self_ac1 :: int
  self_ac2 :: int
  self_ac3 :: int
  self_ac4 :: int
  self_ac5 :: int
  self_ac6 :: int
  self_b1 :: int
  self_b2 :: int
  self_mb :: int
  self_mc :: int
  self_md :: int
  self_os_mode :: int
  self_pressure :: "real option"
  self_temperature :: "real option"

subsection \<open>The bus\<close>

text \<open>
  The SMBus object is the driver's only collaborator. What it answers is an input of
  the model: one outcome for each call the driver makes, \<open>Inl e\<close> when the call
  raises \<open>e\<close>. The constructor opens the bus and reads the calibration block; a
  reading cycle writes a command and reads a block, twice.
\<close>

record init_io =
  bus_open :: "error + unit"
  calib_read :: "error + int list"

record cycle_io =
  temp_write :: "error + unit"
  temp_read :: "error + int list"
  pres_write :: "error + unit"
  pres_read :: "error + int list"

subsection \<open>Constants\<close>

definition OS_MODE_SINGLE :: int where "OS_MODE_SINGLE = 0"
definition OS_MODE_2 :: int where "OS_MODE_2 = 1"
definition OS_MODE_4 :: int where "OS_MODE_4 = 2"
definition OS_MODE_8 :: int where "OS_MODE_8 = 3"

text \<open>\<open>_WAIT_PRESSURE\<close> has four entries; only its length matters here.\<close>

definition WAIT_PRESSURE_len :: int where "WAIT_PRESSURE_len = 4"

subsection \<open>Helpers for Python's list indexing and struct.unpack\<close>

text \<open>\<open>vals[i]\<close> for a literal index \<open>i \<ge> 0\<close>.\<close>

definition getitem :: "int list \<Rightarrow> nat \<Rightarrow> error + int" where
  "getitem vals i = (if i < length vals then Inr (vals ! i) else Inl IndexError)"

text \<open>A big-endian 16-bit field, unsigned (\<open>H\<close>) and signed (\<open>h\<close>).\<close>

definition unpack_H :: "int \<Rightarrow> int \<Rightarrow> int" where
  "unpack_H hi lo = hi * 256 + lo"

definition unpack_h :: "int \<Rightarrow> int \<Rightarrow> int" where
  "unpack_h hi lo = (if unpack_H hi lo \<ge> 32768 then unpack_H hi lo - 65536 else unpack_H hi lo)"

subsection \<open>\<open>_read_calibration_data\<close>\<close>

text \<open>
  \<open>bytearray(calib)\<close> raises \<open>ValueError\<close> when an element is outside
  \<open>range(256)\<close>, and \<open>struct.unpack('>hhhHHHhhhhh', ...)\<close> raises
  \<open>struct.error\<close> unless there are exactly 22 bytes. The result is the tuple of the
  eleven coefficients in the order AC1 .. MD.
\<close>

definition read_calibration_data :: "error + int list \<Rightarrow> error + int list" where
  "read_calibration_data rd =
     (case rd of
        Inl e \<Rightarrow> Inl e
      | Inr calib \<Rightarrow>
          if \<not> list_all (\<lambda>v. 0 \<le> v \<and> v < 256) calib then Inl ValueError
          else if length calib \<noteq> 22 then Inl StructError
          else Inr [unpack_h (calib ! 0) (calib ! 1),
                    unpack_h (calib ! 2) (calib ! 3),
                    unpack_h (calib ! 4) (calib ! 5),
                    unpack_H (calib ! 6) (calib ! 7),
                    unpack_H (calib ! 8) (calib ! 9),
                    unpack_H (calib ! 10) (calib ! 11),
                    unpack_h (calib ! 12) (calib ! 13),
                    unpack_h (calib ! 14) (calib ! 15),
                    unpack_h (calib ! 16) (calib ! 17),
                    unpack_h (calib ! 18) (calib ! 19),
                    unpack_h (calib ! 20) (calib ! 21)])"

subsection \<open>\<open>__init__\<close>\<close>

definition init :: "init_io \<Rightarrow> int \<Rightarrow> int \<Rightarrow> error + bmp180" where
  "init io addr os_mode =
     (if \<not> (addr > 7 \<and> addr < 120) then Inl AssertionError
      else case bus_open io of
        Inl e \<Rightarrow> Inl e
      | Inr _ \<Rightarrow>
          (case read_calibration_data (calib_read io) of
             Inl e \<Rightarrow> Inl e
           | Inr c \<Rightarrow>
               Inr \<lparr> self_addr = addr,
                     self_ac1 = c ! 0, self_ac2 = c ! 1, self_ac3 = c ! 2,
                     self_ac4 = c ! 3, self_ac5 = c ! 4, self_ac6 = c ! 5,
                     self_b1 = c ! 6, self_b2 = c ! 7,
                     self_mb = c ! 8, self_mc = c ! 9, self_md = c ! 10,
                     self_os_mode = os_mode,
                     self_pressure = None, self_temperature = None \<rparr>))"

subsection \<open>The \<open>os_mode\<close> property\<close>

definition os_mode :: "bmp180 \<Rightarrow> int" where
  "os_mode s = self_os_mode s"

definition os_mode_setter :: "int \<Rightarrow> bmp180 \<Rightarrow> (error + unit) \<times> bmp180" where
  "os_mode_setter m s =
     (if \<not> (m = OS_MODE_SINGLE \<or> m = OS_MODE_2 \<or> m = OS_MODE_4 \<or> m = OS_MODE_8)
      then (Inl AssertionError, s)
      else (Inr (), s\<lparr>self_os_mode := m\<rparr>))"

subsection \<open>\<open>_update_sensor_data\<close>\<close>

text \<open>
  Lines 123 to 137: the two command writes and block reads. Nothing is stored in the
  object here. \<open>_WAIT_PRESSURE[self._os_mode]\<close> raises \<open>IndexError\<close> unless
  \<open>-4 \<le> os_mode < 4\<close> (a negative index counts from the end), so that
  \<open>8 - os_mode\<close> is positive where the shift is reached. The third element of the
  pressure block is never read: \<open>vals[0]\<close> is used in its place.
\<close>

definition read_raw :: "cycle_io \<Rightarrow> bmp180 \<Rightarrow> error + int \<times> int" where
  "read_raw io s =
     (case temp_write io of Inl e \<Rightarrow> Inl e | Inr _ \<Rightarrow>
     (case temp_read io of Inl e \<Rightarrow> Inl e | Inr vals \<Rightarrow>
     (case getitem vals 0 of Inl e \<Rightarrow> Inl e | Inr t0 \<Rightarrow>
     (case getitem vals 1 of Inl e \<Rightarrow> Inl e | Inr t1 \<Rightarrow>
     (let ut = push_bit 8 t0 OR t1 in
     (case pres_write io of Inl e \<Rightarrow> Inl e | Inr _ \<Rightarrow>
     (if \<not> (- WAIT_PRESSURE_len \<le> self_os_mode s \<and> self_os_mode s < WAIT_PRESSURE_len)
      then Inl IndexError
      else
     (case pres_read io of Inl e \<Rightarrow> Inl e | Inr vals \<Rightarrow>
     (case getitem vals 0 of Inl e \<Rightarrow> Inl e | Inr p0 \<Rightarrow>
     (case getitem vals 1 of Inl e \<Rightarrow> Inl e | Inr p1 \<Rightarrow>
     (let up = drop_bit (nat (8 - self_os_mode s))
                 ((push_bit 16 p0 OR push_bit 8 p1) OR p0)
      in Inr (ut, up))))))))))))"

text \<open>
  Lines 139 to 161: the compensation. \<open>self._temperature\<close> is assigned on line 142,
  before the pressure is computed, so an exception raised later leaves the new
  temperature in the object. On line 150 Python groups
  \<open>self._b1 * (b6 * b6) >> 12\<close> as \<open>(self._b1 * (b6 * b6)) >> 12\<close>, and on
  line 158 \<open>p**2 >> 16\<close> as \<open>(p**2) >> 16\<close>.
\<close>

definition compensate :: "int \<Rightarrow> int \<Rightarrow> bmp180 \<Rightarrow> (error + unit) \<times> bmp180" where
  "compensate ut up s =
     (let x1 = drop_bit 15 ((ut - self_ac6 s) * self_ac5 s) in
      if x1 + self_md s = 0 then (Inl ZeroDivisionError, s)
      else
      let x2 = push_bit 11 (self_mc s) div (x1 + self_md s);
          b5 = x1 + x2;
          s = s\<lparr>self_temperature := Some (real_of_int ((b5 + 8) div 2 ^ 4) / 10)\<rparr>;
          b6 = b5 - 4000;
          x1 = self_b2 s * drop_bit 12 (b6 * b6);
          x2 = self_ac2 s * b6;
          x3 = drop_bit 11 (x1 + x2)
      in
      if self_os_mode s < 0 then (Inl ValueError, s)
      else
      let b3 = drop_bit 2 (push_bit (nat (self_os_mode s)) (self_ac1 s * 4 + x3) + 2);
          x1 = drop_bit 13 (self_ac3 s * b6);
          x2 = drop_bit 16 (drop_bit 12 (self_b1 s * (b6 * b6)));
          x3 = drop_bit 2 ((x1 + x2) + 2);
          b4 = drop_bit 15 (self_ac4 s * (x3 + 32768));
          b7 = (up - b3) * drop_bit (nat (self_os_mode s)) 50000
      in
      if b4 = 0 then (Inl ZeroDivisionError, s)
      else
      let p = (if b7 < 0x80000000 then (b7 * 2) div b4 else (b7 div b4) * 2);
          x1 = drop_bit 16 (p ^ 2);
          x1 = drop_bit 16 (x1 * 3038);
          x2 = drop_bit 16 (- 7357 * p)
      in (Inr (), s\<lparr>self_pressure := Some (real_of_int (p + drop_bit 4 (x1 + x2 + 3791)) / 100)\<rparr>))"

definition update_sensor_data :: "cycle_io \<Rightarrow> bmp180 \<Rightarrow> (error + unit) \<times> bmp180" where
  "update_sensor_data io s =
     (case read_raw io s of
        Inl e \<Rightarrow> (Inl e, s)
      | Inr (ut, up) \<Rightarrow> compensate ut up s)"

subsection \<open>The accessors\<close>

definition pressure :: "cycle_io \<Rightarrow> bmp180 \<Rightarrow> (error + real option) \<times> bmp180" where
  "pressure io s =
     (case update_sensor_data io s of
        (Inl e, s') \<Rightarrow> (Inl e, s')
      | (Inr _, s') \<Rightarrow> (Inr (self_pressure s'), s'))"

definition temperature :: "cycle_io \<Rightarrow> bmp180 \<Rightarrow> (error + real option) \<times> bmp180" where
  "temperature io s =
     (case update_sensor_data io s of
        (Inl e, s') \<Rightarrow> (Inl e, s')
      | (Inr _, s') \<Rightarrow> (Inr (self_temperature s'), s'))"

text \<open>
  \<open>round(x, 2)\<close>, on the exact value: the nearest multiple of \<open>1/100\<close>. (Python
  breaks ties on the double it holds; ties play no role below.)
\<close>

definition round_2 :: "real \<Rightarrow> real" where
  "round_2 x = real_of_int (round (x * 100)) / 100"

text \<open>
  \<open>math.log\<close> raises \<open>ValueError\<close> on an argument that is not positive, and
  \<open>p/p0\<close> raises \<open>TypeError\<close> when \<open>p\<close> is \<open>None\<close>.
\<close>

definition altitude :: "cycle_io \<Rightarrow> bmp180 \<Rightarrow> (error + real) \<times> bmp180" where
  "altitude io s =
     (let g0 = 9.80665 :: real;
          M = 0.0289644 :: real;
          R = 8.3144598 :: real;
          temp_C = 25 :: real;
          Tb = temp_C + 273.15;
          p0 = 1013.25 :: real
      in
      case update_sensor_data io s of
        (Inl e, s') \<Rightarrow> (Inl e, s')
      | (Inr _, s') \<Rightarrow>
          (case self_pressure s' of
             None \<Rightarrow> (Inl TypeError, s')
           | Some p \<Rightarrow>
               if p / p0 \<le> 0 then (Inl ValueError, s')
               else (Inr (round_2 (- ln (p / p0) * (R * Tb) / (g0 * M))), s')))"

section \<open>The documented reference device\<close>

text \<open>
  The calibration block of the worked example: AC1 = 408, AC2 = -72, AC3 = -14383,
  AC4 = 32741, AC5 = 32757, AC6 = 23153, B1 = 6190, B2 = 4, MB = -32768, MC = -8711,
  MD = 2868, as the 22 bytes the device returns, and the object the constructor
  builds from it at address 0x77 in single mode.
\<close>

definition reference_block :: "int list" where
  "reference_block =
     [0x01, 0x98, 0xFF, 0xB8, 0xC7, 0xD1, 0x7F, 0xE5, 0x7F, 0xF5, 0x5A, 0x71,
      0x18, 0x2E, 0x00, 0x04, 0x80, 0x00, 0xDD, 0xF9, 0x0B, 0x34]"

definition reference_device :: bmp180 where
  "reference_device =
     \<lparr> self_addr = 0x77,
       self_ac1 = 408, self_ac2 = - 72, self_ac3 = - 14383,
       self_ac4 = 32741, self_ac5 = 32757, self_ac6 = 23153,
       self_b1 = 6190, self_b2 = 4,
       self_mb = - 32768, self_mc = - 8711, self_md = 2868,
       self_os_mode = OS_MODE_SINGLE,
       self_pressure = None, self_temperature = None \<rparr>"

text \<open>The reference object after the cycle of the worked example.\<close>

definition after_reference :: bmp180 where
  "after_reference =
     reference_device\<lparr>self_temperature := Some 15, self_pressure := Some (69965 / 100)\<rparr>"


text \<open>The reference calibration with AC4 = 0.\<close>

definition zero_ac4_device :: bmp180 where
  "zero_ac4_device = reference_device\<lparr>self_ac4 := 0\<rparr>"

text \<open>A calibration on which X3 + 32768 is negative at UT = 27898.\<close>

definition cast_device :: bmp180 where
  "cast_device = reference_device\<lparr>self_ac3 := 32767, self_md := - 4600\<rparr>"

text \<open>A reading cycle in which the bus answers with the given two and three bytes.\<close>

definition answers :: "int list \<Rightarrow> int list \<Rightarrow> cycle_io" where
  "answers tb pb =
     \<lparr> temp_write = Inr (), temp_read = Inr tb, pres_write = Inr (), pres_read = Inr pb \<rparr>"

section \<open>The formulas of the specification\<close>

text \<open>
  These definitions follow the words of the specification, not the code; the
  theorems below compare them with the driver. Calibration and mode are read from
  the object.
\<close>

subsection \<open>Raw pressure\<close>

definition spec_raw_pressure :: "int \<Rightarrow> int \<Rightarrow> int \<Rightarrow> int \<Rightarrow> int" where
  "spec_raw_pressure m b0 b1 b2 =
     drop_bit (nat (8 - m)) ((push_bit 16 b0 OR push_bit 8 b1) OR b0)"

subsection \<open>Temperature\<close>

definition spec_X1 :: "bmp180 \<Rightarrow> int \<Rightarrow> int" where
  "spec_X1 s UT = drop_bit 15 ((UT - self_ac6 s) * self_ac5 s)"

definition spec_X2 :: "bmp180 \<Rightarrow> int \<Rightarrow> int" where
  "spec_X2 s UT = push_bit 11 (self_mc s) div (spec_X1 s UT + self_md s)"

definition spec_B5 :: "bmp180 \<Rightarrow> int \<Rightarrow> int" where
  "spec_B5 s UT = spec_X1 s UT + spec_X2 s UT"

definition spec_T :: "bmp180 \<Rightarrow> int \<Rightarrow> int" where
  "spec_T s UT = drop_bit 4 (spec_X1 s UT + spec_X2 s UT + 8)"

definition spec_temperatureC :: "bmp180 \<Rightarrow> int \<Rightarrow> real" where
  "spec_temperatureC s UT = real_of_int (spec_T s UT) / 10"

text \<open>Division truncating towards zero, as in C, for comparison.\<close>

definition c_quotient :: "int \<Rightarrow> int \<Rightarrow> int" where
  "c_quotient n d = (if (n < 0) = (d < 0) then \<bar>n\<bar> div \<bar>d\<bar> else - (\<bar>n\<bar> div \<bar>d\<bar>))"

subsection \<open>Pressure\<close>

text \<open>
  The cast \<open>(unsigned)\<close> is read as the 32-bit one of the sensor's data sheet, and
  is applied to exactly the operand the specification writes it on. The two
  divisions of the P line round down, like the one of X2.
\<close>

definition unsigned :: "int \<Rightarrow> int" where
  "unsigned x = x mod 2 ^ 32"

definition spec_B6 :: "bmp180 \<Rightarrow> int \<Rightarrow> int" where
  "spec_B6 s UT = spec_B5 s UT - 4000"

definition spec_B3 :: "bmp180 \<Rightarrow> int \<Rightarrow> int" where
  "spec_B3 s UT =
     (let B6 = spec_B6 s UT;
          X1 = drop_bit 11 (self_b2 s * drop_bit 12 (B6 * B6));
          X2 = drop_bit 11 (self_ac2 s * B6);
          X3 = X1 + X2
      in drop_bit 2 (push_bit (nat (self_os_mode s)) (self_ac1 s * 4 + X3) + 2))"

text \<open>The second X3, the one B4 is computed from.\<close>

definition spec_X3 :: "bmp180 \<Rightarrow> int \<Rightarrow> int" where
  "spec_X3 s UT =
     (let B6 = spec_B6 s UT;
          X1 = drop_bit 13 (self_ac3 s * B6);
          X2 = drop_bit 16 (self_b1 s * drop_bit 12 (B6 * B6))
      in drop_bit 2 ((X1 + X2) + 2))"

definition spec_B4 :: "bmp180 \<Rightarrow> int \<Rightarrow> int" where
  "spec_B4 s UT = drop_bit 15 (self_ac4 s * unsigned (spec_X3 s UT + 32768))"

text \<open>The steps from B7 to the end, given B3 and B4.\<close>

definition spec_tail :: "bmp180 \<Rightarrow> int \<Rightarrow> int \<Rightarrow> int \<Rightarrow> int" where
  "spec_tail s B3 B4 UP =
     (let B7 = (unsigned UP - B3) * drop_bit (nat (self_os_mode s)) 50000;
          P = (if B7 < 0x80000000 then (B7 * 2) div B4 else (B7 div B4) * 2);
          X1 = drop_bit 16 (P * P);
          X1 = drop_bit 16 (X1 * 3038);
          X2 = drop_bit 16 (- 7357 * P)
      in P + drop_bit 4 (X1 + X2 + 3791))"

definition spec_pressurePa :: "bmp180 \<Rightarrow> int \<Rightarrow> int \<Rightarrow> real" where
  "spec_pressurePa s UT UP =
     real_of_int (spec_tail s (spec_B3 s UT) (spec_B4 s UT) UP) / 100"

subsection \<open>The pipeline with the first X3 as the driver groups it\<close>

text \<open>
  The same pipeline with two changes. The two products are added unshifted and the
  sum is shifted once, \<open>X3 = (B2 * (B6*B6 >> 12) + AC2 * B6) >> 11\<close>; and the
  integers are Python's, signed and unbounded, so that there is no cast.
\<close>

definition summed_B3 :: "bmp180 \<Rightarrow> int \<Rightarrow> int" where
  "summed_B3 s UT =
     (let B6 = spec_B6 s UT;
          X1 = self_b2 s * drop_bit 12 (B6 * B6);
          X2 = self_ac2 s * B6;
          X3 = drop_bit 11 (X1 + X2)
      in drop_bit 2 (push_bit (nat (self_os_mode s)) (self_ac1 s * 4 + X3) + 2))"

definition plain_B4 :: "bmp180 \<Rightarrow> int \<Rightarrow> int" where
  "plain_B4 s UT = drop_bit 15 (self_ac4 s * (spec_X3 s UT + 32768))"

definition plain_tail :: "bmp180 \<Rightarrow> int \<Rightarrow> int \<Rightarrow> int \<Rightarrow> int" where
  "plain_tail s B3 B4 UP =
     (let B7 = (UP - B3) * drop_bit (nat (self_os_mode s)) 50000;
          P = (if B7 < 0x80000000 then (B7 * 2) div B4 else (B7 div B4) * 2);
          X1 = drop_bit 16 (P * P);
          X1 = drop_bit 16 (X1 * 3038);
          X2 = drop_bit 16 (- 7357 * P)
      in P + drop_bit 4 (X1 + X2 + 3791))"

definition summed_pressure :: "bmp180 \<Rightarrow> int \<Rightarrow> int \<Rightarrow> real" where
  "summed_pressure s UT UP =
     real_of_int (plain_tail s (summed_B3 s UT) (plain_B4 s UT) UP) / 100"

text \<open>
  The B1 term in the two groupings: the specification's, and
  \<open>((B1 * (B6*B6)) >> 12) >> 16\<close>.
\<close>

definition B1_term_spec :: "bmp180 \<Rightarrow> int \<Rightarrow> int" where
  "B1_term_spec s UT = drop_bit 16 (self_b1 s * drop_bit 12 (spec_B6 s UT * spec_B6 s UT))"

definition B1_term_flat :: "bmp180 \<Rightarrow> int \<Rightarrow> int" where
  "B1_term_flat s UT = drop_bit 16 (drop_bit 12 (self_b1 s * (spec_B6 s UT * spec_B6 s UT)))"

section \<open>The intermediate values of the driver\<close>

text \<open>
  The values \<open>_update_sensor_data\<close> computes on the way, each as a function of what
  it is computed from, line by line as in the source: \<open>x1\<close> of line 139, \<open>b5\<close> of
  line 141, \<open>b3\<close> of line 148, \<open>b4\<close> of line 152, and the integer that line 161
  divides by \<open>100.0\<close>.
\<close>

definition code_x1 :: "bmp180 \<Rightarrow> int \<Rightarrow> int" where
  "code_x1 s ut = drop_bit 15 ((ut - self_ac6 s) * self_ac5 s)"

definition code_b5 :: "bmp180 \<Rightarrow> int \<Rightarrow> int" where
  "code_b5 s ut =
     (let x1 = drop_bit 15 ((ut - self_ac6 s) * self_ac5 s);
          x2 = push_bit 11 (self_mc s) div (x1 + self_md s)
      in x1 + x2)"

definition code_b3 :: "bmp180 \<Rightarrow> int \<Rightarrow> int" where
  "code_b3 s b5 =
     (let b6 = b5 - 4000;
          x1 = self_b2 s * drop_bit 12 (b6 * b6);
          x2 = self_ac2 s * b6;
          x3 = drop_bit 11 (x1 + x2)
      in drop_bit 2 (push_bit (nat (self_os_mode s)) (self_ac1 s * 4 + x3) + 2))"

definition code_b4 :: "bmp180 \<Rightarrow> int \<Rightarrow> int" where
  "code_b4 s b5 =
     (let b6 = b5 - 4000;
          x1 = drop_bit 13 (self_ac3 s * b6);
          x2 = drop_bit 16 (drop_bit 12 (self_b1 s * (b6 * b6)));
          x3 = drop_bit 2 ((x1 + x2) + 2)
      in drop_bit 15 (self_ac4 s * (x3 + 32768)))"

definition code_tail :: "bmp180 \<Rightarrow> int \<Rightarrow> int \<Rightarrow> int \<Rightarrow> int" where
  "code_tail s b3 b4 up =
     (let b7 = (up - b3) * drop_bit (nat (self_os_mode s)) 50000;
          p = (if b7 < 0x80000000 then (b7 * 2) div b4 else (b7 div b4) * 2);
          x1 = drop_bit 16 (p ^ 2);
          x1 = drop_bit 16 (x1 * 3038);
          x2 = drop_bit 16 (- 7357 * p)
      in p + drop_bit 4 (x1 + x2 + 3791))"

text \<open>The object after line 142 has stored the temperature.\<close>

definition with_temperature :: "bmp180 \<Rightarrow> int \<Rightarrow> bmp180" where
  "with_temperature s ut =
     s\<lparr>self_temperature := Some (real_of_int ((code_b5 s ut + 8) div 2 ^ 4) / 10)\<rparr>"

section \<open>The shape of a reading cycle\<close>

lemma compensate_staged:
  "compensate ut up s =
     (if code_x1 s ut + self_md s = 0 then (Inl ZeroDivisionError, s)
      else if self_os_mode s < 0 then (Inl ValueError, with_temperature s ut)
      else if code_b4 s (code_b5 s ut) = 0 then (Inl ZeroDivisionError, with_temperature s ut)
      else (Inr (),
            (with_temperature s ut)
              \<lparr>self_pressure :=
                 Some (real_of_int
                   (code_tail s (code_b3 s (code_b5 s ut)) (code_b4 s (code_b5 s ut)) up) / 100)\<rparr>))"
  unfolding compensate_def code_b3_def code_b4_def code_tail_def code_b5_def code_x1_def
    with_temperature_def
  by (simp add: Let_def split del: if_split cong: if_cong)

lemma code_x1_spec: "code_x1 s UT = spec_X1 s UT"
  by (simp add: code_x1_def spec_X1_def)

lemma code_b5_spec: "code_b5 s UT = spec_B5 s UT"
  by (simp add: code_b5_def spec_B5_def spec_X1_def spec_X2_def Let_def)

lemma read_raw_answers:
  "read_raw (answers [t0, t1] [p0, p1, p2]) s =
     (if - 4 \<le> self_os_mode s \<and> self_os_mode s < 4
      then Inr (push_bit 8 t0 OR t1,
                drop_bit (nat (8 - self_os_mode s)) ((push_bit 16 p0 OR push_bit 8 p1) OR p0))
      else Inl IndexError)"
  by (simp add: read_raw_def answers_def getitem_def WAIT_PRESSURE_len_def)

lemma update_sensor_data_raw:
  "read_raw io s = Inr (ut, up) \<Longrightarrow> update_sensor_data io s = compensate ut up s"
  by (simp add: update_sensor_data_def)

lemma update_sensor_data_fault:
  "read_raw io s = Inl e \<Longrightarrow> update_sensor_data io s = (Inl e, s)"
  by (simp add: update_sensor_data_def)

section \<open>The worked example\<close>

lemma reference_read_raw:
  "read_raw (answers [0x6C, 0xFA] [0x5D, 0x23, 0x00]) reference_device = Inr (27898, 23843)"
  by (simp add: read_raw_answers reference_device_def OS_MODE_SINGLE_def)

lemma reference_compensate:
  "compensate 27898 23843 reference_device =
     (Inr (), reference_device\<lparr>self_temperature := Some 15,
                               self_pressure := Some (69965 / 100)\<rparr>)"
  by (simp add: compensate_def reference_device_def OS_MODE_SINGLE_def Let_def)

text \<open>
  Claim C1, as the driver has it. With the reference calibration in single mode, a
  cycle in which the bus answers UT = 27898 (bytes 6C FA) and UP = 23843 (bytes
  5D 23 and any third byte) stores and returns the temperature 15.0 and the
  pressure 699.65: line 161 divides the integer 69965 by 100.0. The accessors
  return these two values.
\<close>

theorem reference_example:
  "update_sensor_data (answers [0x6C, 0xFA] [0x5D, 0x23, 0x00]) reference_device =
     (Inr (), reference_device\<lparr>self_temperature := Some 15,
                               self_pressure := Some (69965 / 100)\<rparr>)
   \<and> temperature (answers [0x6C, 0xFA] [0x5D, 0x23, 0x00]) reference_device =
     (Inr (Some 15), reference_device\<lparr>self_temperature := Some 15,
                                      self_pressure := Some (69965 / 100)\<rparr>)
   \<and> pressure (answers [0x6C, 0xFA] [0x5D, 0x23, 0x00]) reference_device =
     (Inr (Some (69965 / 100)), reference_device\<lparr>self_temperature := Some 15,
                                                 self_pressure := Some (69965 / 100)\<rparr>)"
  by (simp add: temperature_def pressure_def
      update_sensor_data_raw [OF reference_read_raw] reference_compensate)

text \<open>
  Claim C1 as the specification words it fails: the pressure the compensation
  stores for UT = 27898 and UP = 23843 is neither 69964.0 nor 699.64.
\<close>

theorem reference_pressure_is_not_69964:
  "\<not> (self_temperature (snd (compensate 27898 23843 reference_device)) = Some 15 \<and>
      self_pressure (snd (compensate 27898 23843 reference_device)) = Some 69964)
   \<and> self_pressure (snd (compensate 27898 23843 reference_device)) \<noteq> Some (69964 / 100)"
  by (simp add: reference_compensate)

section \<open>The raw pressure code\<close>

text \<open>
  Claim C3. In each of the four oversampling modes, when the bus answers the
  pressure read with the block [b0, b1, b2], the raw pressure code is
  ((b0 << 16) | (b1 << 8) | b0) >> (8 - m): the low byte is b0 again, not b2.
\<close>

theorem raw_pressure_combination:
  assumes "m \<in> {0, 1, 2, 3}" and "self_os_mode s = m"
  shows "read_raw (answers [t0, t1] [b0, b1, b2]) s =
           Inr (push_bit 8 t0 OR t1, spec_raw_pressure m b0 b1 b2)"
  using assms by (auto simp add: read_raw_answers spec_raw_pressure_def)

theorem raw_pressure_combination_witness:
  "(3::int) \<in> {0, 1, 2, 3} \<and> self_os_mode (reference_device\<lparr>self_os_mode := 3\<rparr>) = 3 \<and>
   read_raw (answers [0x6C, 0xFA] [0x5D, 0x23, 0xFF]) (reference_device\<lparr>self_os_mode := 3\<rparr>) =
     Inr (27898, 190746) \<and> spec_raw_pressure 3 0x5D 0x23 0xFF = 190746"
  using raw_pressure_combination
    [of 3 "reference_device\<lparr>self_os_mode := 3\<rparr>" "0x6C" "0xFA" "0x5D" "0x23" "0xFF"]
  by (simp add: spec_raw_pressure_def)

section \<open>The temperature\<close>

text \<open>
  Claim C4. When X1 + MD is not zero, the temperature the cycle stores is
  ((X1 + X2 + 8) >> 4) / 10.0 with X1 = ((UT - AC6) * AC5) >> 15 and
  X2 = (MC << 11) / (X1 + MD), the division rounding towards minus infinity. It is
  stored whatever happens to the pressure afterwards, and it is what temperature()
  returns when the cycle goes through.
\<close>

theorem temperature_formula:
  assumes "spec_X1 s UT + self_md s \<noteq> 0" and "read_raw io s = Inr (UT, UP)"
  shows "self_temperature (snd (update_sensor_data io s)) = Some (spec_temperatureC s UT)
         \<and> (fst (update_sensor_data io s) = Inr () \<longrightarrow>
              fst (temperature io s) = Inr (Some (spec_temperatureC s UT)))"
proof -
  have stored: "self_temperature (with_temperature s UT) = Some (spec_temperatureC s UT)"
    by (simp add: with_temperature_def code_b5_spec spec_B5_def spec_temperatureC_def
        spec_T_def drop_bit_eq_div)
  have upd: "update_sensor_data io s = compensate UT UP s"
    using assms(2) by (rule update_sensor_data_raw)
  have field: "self_temperature (snd (compensate UT UP s)) = Some (spec_temperatureC s UT)"
    using assms(1) stored by (simp add: compensate_staged code_x1_spec)
  show ?thesis
    using field by (cases "compensate UT UP s") (auto simp add: upd temperature_def)
qed

text \<open>
  The reference input, where the floor of -17840128 / 7611 is -2344 and the
  quotient truncated towards zero would be -2343.
\<close>

theorem temperature_formula_witness:
  "spec_X1 reference_device 27898 + self_md reference_device \<noteq> 0 \<and>
   read_raw (answers [0x6C, 0xFA] [0x5D, 0x23, 0x00]) reference_device = Inr (27898, 23843) \<and>
   self_temperature (snd (update_sensor_data (answers [0x6C, 0xFA] [0x5D, 0x23, 0x00])
     reference_device)) = Some 15 \<and>
   fst (temperature (answers [0x6C, 0xFA] [0x5D, 0x23, 0x00]) reference_device) = Inr (Some 15) \<and>
   spec_X1 reference_device 27898 = 4743 \<and>
   spec_X2 reference_device 27898 = - 2344 \<and>
   c_quotient (push_bit 11 (self_mc reference_device))
     (spec_X1 reference_device 27898 + self_md reference_device) = - 2343"
proof -
  have nz: "spec_X1 reference_device 27898 + self_md reference_device \<noteq> 0"
    by (simp add: spec_X1_def reference_device_def)
  have ok: "fst (update_sensor_data (answers [0x6C, 0xFA] [0x5D, 0x23, 0x00]) reference_device)
              = Inr ()"
    by (simp add: update_sensor_data_raw [OF reference_read_raw] reference_compensate)
  have val: "spec_temperatureC reference_device 27898 = 15"
    by (simp add: spec_temperatureC_def spec_T_def spec_X1_def spec_X2_def reference_device_def)
  show ?thesis
    using temperature_formula [OF nz reference_read_raw] ok val nz reference_read_raw
    by (simp add: spec_X1_def spec_X2_def reference_device_def c_quotient_def)
qed

section \<open>Construction and the oversampling mode\<close>

lemma reference_calibration:
  "read_calibration_data (Inr reference_block) =
     Inr [408, - 72, - 14383, 32741, 32757, 23153, 6190, 4, - 32768, - 8711, 2868]"
  by (simp add: read_calibration_data_def reference_block_def unpack_h_def unpack_H_def)

lemma reference_init:
  "init \<lparr>bus_open = Inr (), calib_read = Inr reference_block\<rparr> 0x77 OS_MODE_SINGLE
     = Inr reference_device"
  by (simp add: init_def reference_calibration reference_device_def)

text \<open>
  Claim C7. The setter of \<open>os_mode\<close> raises on every value other than the four
  modes and leaves the object as it was; for each of the four it stores exactly that
  value, which the getter then returns. The failure is the \<open>AssertionError\<close> of the
  \<open>assert\<close> on line 107; the specification calls it InvalidModeError.
\<close>

theorem os_mode_setter_validates:
  "(m \<notin> {OS_MODE_SINGLE, OS_MODE_2, OS_MODE_4, OS_MODE_8} \<longrightarrow>
      os_mode_setter m s = (Inl AssertionError, s))
   \<and> (m \<in> {OS_MODE_SINGLE, OS_MODE_2, OS_MODE_4, OS_MODE_8} \<longrightarrow>
      fst (os_mode_setter m s) = Inr () \<and> os_mode (snd (os_mode_setter m s)) = m
      \<and> snd (os_mode_setter m s) = s\<lparr>self_os_mode := m\<rparr>)"
  by (simp add: os_mode_setter_def os_mode_def)

theorem os_mode_setter_validates_witness:
  "(4::int) \<notin> {OS_MODE_SINGLE, OS_MODE_2, OS_MODE_4, OS_MODE_8} \<and>
   os_mode_setter 4 reference_device = (Inl AssertionError, reference_device) \<and>
   (- 1::int) \<notin> {OS_MODE_SINGLE, OS_MODE_2, OS_MODE_4, OS_MODE_8} \<and>
   os_mode_setter (- 1) reference_device = (Inl AssertionError, reference_device) \<and>
   OS_MODE_8 \<in> {OS_MODE_SINGLE, OS_MODE_2, OS_MODE_4, OS_MODE_8} \<and>
   fst (os_mode_setter OS_MODE_8 reference_device) = Inr () \<and>
   os_mode (snd (os_mode_setter OS_MODE_8 reference_device)) = 3 \<and>
   os_mode reference_device = 0"
  using os_mode_setter_validates [of 4 reference_device]
    os_mode_setter_validates [of "- 1" reference_device]
    os_mode_setter_validates [of OS_MODE_8 reference_device]
  by (simp add: OS_MODE_SINGLE_def OS_MODE_2_def OS_MODE_4_def OS_MODE_8_def
      os_mode_def reference_device_def)

lemma read_calibration_data_ok:
  assumes "length calib = 22" and "list_all (\<lambda>v. 0 \<le> v \<and> v < 256) calib"
  shows "\<exists>c. read_calibration_data (Inr calib) = Inr c"
  using assms by (simp add: read_calibration_data_def)

text \<open>
  Claim C8. The constructor raises for every address outside 0x07 < a < 0x78,
  whatever the bus does (the \<open>assert\<close> of line 41 comes first; the specification
  calls its \<open>AssertionError\<close> InvalidAddressError). For every address inside the
  range it builds the object once the bus opens and the calibration read returns
  22 bytes.
\<close>

theorem init_checks_address:
  "(\<not> (0x07 < a \<and> a < 0x78) \<longrightarrow> init io a m = Inl AssertionError)
   \<and> (0x07 < a \<and> a < 0x78 \<and> bus_open io = Inr () \<and> calib_read io = Inr calib
        \<and> length calib = 22 \<and> list_all (\<lambda>v. 0 \<le> v \<and> v < 256) calib \<longrightarrow>
      (\<exists>s. init io a m = Inr s \<and> self_addr s = a \<and> self_os_mode s = m
           \<and> self_pressure s = None \<and> self_temperature s = None))"
proof (intro conjI impI)
  assume "\<not> (0x07 < a \<and> a < 0x78)"
  then show "init io a m = Inl AssertionError"
    by (simp add: init_def)
next
  assume h: "0x07 < a \<and> a < 0x78 \<and> bus_open io = Inr () \<and> calib_read io = Inr calib
        \<and> length calib = 22 \<and> list_all (\<lambda>v. 0 \<le> v \<and> v < 256) calib"
  then obtain c where "read_calibration_data (Inr calib) = Inr c"
    using read_calibration_data_ok by blast
  with h show "\<exists>s. init io a m = Inr s \<and> self_addr s = a \<and> self_os_mode s = m
           \<and> self_pressure s = None \<and> self_temperature s = None"
    by (simp add: init_def)
qed

text \<open>Addresses 0x00 and 0x78 fail; 0x77 with the reference block succeeds.\<close>

theorem init_checks_address_witness:
  "\<not> (0x07 < (0x00::int) \<and> (0x00::int) < 0x78) \<and>
   init \<lparr>bus_open = Inr (), calib_read = Inr reference_block\<rparr> 0x00 OS_MODE_SINGLE
     = Inl AssertionError \<and>
   \<not> (0x07 < (0x78::int) \<and> (0x78::int) < 0x78) \<and>
   init \<lparr>bus_open = Inr (), calib_read = Inr reference_block\<rparr> 0x78 OS_MODE_SINGLE
     = Inl AssertionError \<and>
   (0x07 < (0x77::int) \<and> (0x77::int) < 0x78) \<and>
   length reference_block = 22 \<and> list_all (\<lambda>v. 0 \<le> v \<and> v < 256) reference_block \<and>
   init \<lparr>bus_open = Inr (), calib_read = Inr reference_block\<rparr> 0x77 OS_MODE_SINGLE
     = Inr reference_device"
  using init_checks_address
      [of "0x00" "\<lparr>bus_open = Inr (), calib_read = Inr reference_block\<rparr>" OS_MODE_SINGLE]
    init_checks_address
      [of "0x78" "\<lparr>bus_open = Inr (), calib_read = Inr reference_block\<rparr>" OS_MODE_SINGLE]
    init_checks_address
      [of "0x77" "\<lparr>bus_open = Inr (), calib_read = Inr reference_block\<rparr>" OS_MODE_SINGLE
        reference_block]
    reference_init
  by (simp add: reference_block_def)

section \<open>Transport failures\<close>

lemma accessors_fault:
  assumes "read_raw io s = Inl e"
  shows "pressure io s = (Inl e, s) \<and> temperature io s = (Inl e, s) \<and> altitude io s = (Inl e, s)"
  using assms by (simp add: pressure_def temperature_def altitude_def update_sensor_data_def)

text \<open>
  Claim C6. A reading cycle makes four bus calls: the temperature command write,
  the temperature read, the pressure command write and the pressure read. When one
  of them raises \<open>e\<close> (the calls before it having answered), each of pressure(),
  temperature() and altitude() raises \<open>e\<close>, returns no value, and leaves the object,
  its stored temperature and pressure included, as it was before the call.
\<close>

theorem transport_failure_propagates:
  "(temp_write io = Inl e \<longrightarrow>
      pressure io s = (Inl e, s) \<and> temperature io s = (Inl e, s) \<and> altitude io s = (Inl e, s))
   \<and> (temp_write io = Inr () \<and> temp_read io = Inl e \<longrightarrow>
      pressure io s = (Inl e, s) \<and> temperature io s = (Inl e, s) \<and> altitude io s = (Inl e, s))
   \<and> (temp_write io = Inr () \<and> temp_read io = Inr [t0, t1] \<and> pres_write io = Inl e \<longrightarrow>
      pressure io s = (Inl e, s) \<and> temperature io s = (Inl e, s) \<and> altitude io s = (Inl e, s))
   \<and> (temp_write io = Inr () \<and> temp_read io = Inr [t0, t1] \<and> pres_write io = Inr ()
        \<and> self_os_mode s \<in> {0, 1, 2, 3} \<and> pres_read io = Inl e \<longrightarrow>
      pressure io s = (Inl e, s) \<and> temperature io s = (Inl e, s) \<and> altitude io s = (Inl e, s))"
proof -
  have 1: "read_raw io s = Inl e" if "temp_write io = Inl e"
    using that by (simp add: read_raw_def)
  have 2: "read_raw io s = Inl e" if "temp_write io = Inr () \<and> temp_read io = Inl e"
    using that by (simp add: read_raw_def)
  have 3: "read_raw io s = Inl e"
    if "temp_write io = Inr () \<and> temp_read io = Inr [t0, t1] \<and> pres_write io = Inl e"
    using that by (simp add: read_raw_def getitem_def)
  have 4: "read_raw io s = Inl e"
    if "temp_write io = Inr () \<and> temp_read io = Inr [t0, t1] \<and> pres_write io = Inr ()
        \<and> self_os_mode s \<in> {0, 1, 2, 3} \<and> pres_read io = Inl e"
    using that by (auto simp add: read_raw_def getitem_def WAIT_PRESSURE_len_def)
  show ?thesis
    using 1 2 3 4 accessors_fault [of io s e] by blast
qed

text \<open>
  A fault at each of the four stages, on an object that holds the values of an
  earlier cycle.
\<close>

theorem transport_failure_propagates_witness:
  "pressure \<lparr>temp_write = Inl IOError, temp_read = Inr [0x6C, 0xFA],
             pres_write = Inr (), pres_read = Inr [0x5D, 0x23, 0x00]\<rparr> after_reference
     = (Inl IOError, after_reference) \<and>
   temperature \<lparr>temp_write = Inr (), temp_read = Inl IOError,
             pres_write = Inr (), pres_read = Inr [0x5D, 0x23, 0x00]\<rparr> after_reference
     = (Inl IOError, after_reference) \<and>
   altitude \<lparr>temp_write = Inr (), temp_read = Inr [0x6C, 0xFA],
             pres_write = Inl IOError, pres_read = Inr [0x5D, 0x23, 0x00]\<rparr> after_reference
     = (Inl IOError, after_reference) \<and>
   pressure \<lparr>temp_write = Inr (), temp_read = Inr [0x6C, 0xFA],
             pres_write = Inr (), pres_read = Inl IOError\<rparr> after_reference
     = (Inl IOError, after_reference) \<and>
   self_os_mode after_reference \<in> {0, 1, 2, 3} \<and>
   self_pressure after_reference = Some (69965 / 100)"
  using transport_failure_propagates
      [of "\<lparr>temp_write = Inl IOError, temp_read = Inr [0x6C, 0xFA],
             pres_write = Inr (), pres_read = Inr [0x5D, 0x23, 0x00]\<rparr>" IOError after_reference]
    transport_failure_propagates
      [of "\<lparr>temp_write = Inr (), temp_read = Inl IOError,
             pres_write = Inr (), pres_read = Inr [0x5D, 0x23, 0x00]\<rparr>" IOError after_reference]
    transport_failure_propagates
      [of "\<lparr>temp_write = Inr (), temp_read = Inr [0x6C, 0xFA],
             pres_write = Inl IOError, pres_read = Inr [0x5D, 0x23, 0x00]\<rparr>" IOError after_reference
          "0x6C" "0xFA"]
    transport_failure_propagates
      [of "\<lparr>temp_write = Inr (), temp_read = Inr [0x6C, 0xFA],
             pres_write = Inr (), pres_read = Inl IOError\<rparr>" IOError after_reference
          "0x6C" "0xFA"]
  by (simp add: after_reference_def reference_device_def OS_MODE_SINGLE_def)

section \<open>The third data byte\<close>

text \<open>
  Claim C10. Two reading cycles whose bus answers differ only in the third byte of
  the pressure block ([x, y, z] against [x, y, z']) end in the same result and the same object, for the cycle
  itself and for each accessor.
\<close>

theorem third_byte_is_ignored:
  "update_sensor_data (io\<lparr>pres_read := Inr [x, y, z]\<rparr>) s =
     update_sensor_data (io\<lparr>pres_read := Inr [x, y, z']\<rparr>) s
   \<and> temperature (io\<lparr>pres_read := Inr [x, y, z]\<rparr>) s =
     temperature (io\<lparr>pres_read := Inr [x, y, z']\<rparr>) s
   \<and> pressure (io\<lparr>pres_read := Inr [x, y, z]\<rparr>) s =
     pressure (io\<lparr>pres_read := Inr [x, y, z']\<rparr>) s
   \<and> altitude (io\<lparr>pres_read := Inr [x, y, z]\<rparr>) s =
     altitude (io\<lparr>pres_read := Inr [x, y, z']\<rparr>) s"
proof -
  have "read_raw (io\<lparr>pres_read := Inr [x, y, z]\<rparr>) s =
        read_raw (io\<lparr>pres_read := Inr [x, y, z']\<rparr>) s"
    by (auto simp add: read_raw_def getitem_def Let_def split: sum.splits)
  then have "update_sensor_data (io\<lparr>pres_read := Inr [x, y, z]\<rparr>) s =
     update_sensor_data (io\<lparr>pres_read := Inr [x, y, z']\<rparr>) s"
    by (simp add: update_sensor_data_def)
  then show ?thesis
    by (simp add: temperature_def pressure_def altitude_def)
qed


theorem third_byte_is_ignored_witness:
  "pressure (answers [0x6C, 0xFA] [0x5D, 0x23, 0xFF]) reference_device =
     (Inr (Some (69965 / 100)), after_reference)
   \<and> pressure (answers [0x6C, 0xFA] [0x5D, 0x23, 0x00]) reference_device =
     (Inr (Some (69965 / 100)), after_reference)"
proof -
  have a: "answers [0x6C, 0xFA] [0x5D, 0x23, 0xFF] =
           (answers [0x6C, 0xFA] [])\<lparr>pres_read := Inr [0x5D, 0x23, 0xFF]\<rparr>"
    by (simp add: answers_def)
  have b: "answers [0x6C, 0xFA] [0x5D, 0x23, 0x00] =
           (answers [0x6C, 0xFA] [])\<lparr>pres_read := Inr [0x5D, 0x23, 0x00]\<rparr>"
    by (simp add: answers_def)
  have c: "pressure (answers [0x6C, 0xFA] [0x5D, 0x23, 0x00]) reference_device =
     (Inr (Some (69965 / 100)), after_reference)"
    by (simp add: pressure_def update_sensor_data_raw [OF reference_read_raw]
        reference_compensate after_reference_def)
  show ?thesis
    using third_byte_is_ignored
      [where io = "answers [0x6C, 0xFA] []" and s = reference_device
         and x = "0x5D" and y = "0x23" and z = "0xFF" and z' = "0x00"] c
    by (simp add: a b)
qed

section \<open>The two divisions\<close>

lemma zero_divisor_read_raw:
  "read_raw (answers [0x4F, 0x3D] [0x5D, 0x23, 0x00]) reference_device = Inr (20285, 23843)"
  by (simp add: read_raw_answers reference_device_def OS_MODE_SINGLE_def)

lemma zero_ac4_read_raw:
  "read_raw (answers [0x6C, 0xFA] [0x5D, 0x23, 0x00]) zero_ac4_device = Inr (27898, 23843)"
  by (simp add: read_raw_answers zero_ac4_device_def reference_device_def OS_MODE_SINGLE_def)

lemma reference_divisors:
  "code_x1 reference_device 20285 + self_md reference_device = 0"
  "code_x1 zero_ac4_device 27898 + self_md zero_ac4_device = 7611"
  "code_b4 zero_ac4_device (code_b5 zero_ac4_device 27898) = 0"
  "code_x1 reference_device 27898 + self_md reference_device = 7611"
  "code_b4 reference_device (code_b5 reference_device 27898) = 33457"
  by (simp_all add: code_x1_def code_b4_def code_b5_def zero_ac4_device_def reference_device_def)

text \<open>
  Claim C9. In a cycle whose bus calls answer, in one of the four modes, the
  divisions of lines 140 and 155/157 are the only way to fail: when x1 + MD = 0, or
  when b4 = 0, the cycle and the accessors raise \<open>ZeroDivisionError\<close>; when both
  divisors are nonzero the cycle ends normally and temperature() and pressure()
  return their values.
\<close>

theorem divisions_unguarded:
  assumes "self_os_mode s \<in> {0, 1, 2, 3}" and "read_raw io s = Inr (ut, up)"
  shows "(code_x1 s ut + self_md s = 0 \<or> code_b4 s (code_b5 s ut) = 0 \<longrightarrow>
            fst (update_sensor_data io s) = Inl ZeroDivisionError
            \<and> fst (pressure io s) = Inl ZeroDivisionError
            \<and> fst (temperature io s) = Inl ZeroDivisionError
            \<and> fst (altitude io s) = Inl ZeroDivisionError)
         \<and> (code_x1 s ut + self_md s \<noteq> 0 \<and> code_b4 s (code_b5 s ut) \<noteq> 0 \<longrightarrow>
            fst (update_sensor_data io s) = Inr ()
            \<and> fst (temperature io s) =
                  Inr (Some (real_of_int ((code_b5 s ut + 8) div 2 ^ 4) / 10))
            \<and> fst (pressure io s) =
                  Inr (Some (real_of_int (code_tail s (code_b3 s (code_b5 s ut))
                               (code_b4 s (code_b5 s ut)) up) / 100)))"
proof -
  have upd: "update_sensor_data io s = compensate ut up s"
    using assms(2) by (rule update_sensor_data_raw)
  have mode: "\<not> self_os_mode s < 0"
    using assms(1) by auto
  have bad: "fst (compensate ut up s) = Inl ZeroDivisionError"
    if "code_x1 s ut + self_md s = 0 \<or> code_b4 s (code_b5 s ut) = 0"
    using that mode by (auto simp add: compensate_staged)
  have good: "compensate ut up s =
      (Inr (), (with_temperature s ut)\<lparr>self_pressure := Some (real_of_int
         (code_tail s (code_b3 s (code_b5 s ut)) (code_b4 s (code_b5 s ut)) up) / 100)\<rparr>)"
    if "code_x1 s ut + self_md s \<noteq> 0 \<and> code_b4 s (code_b5 s ut) \<noteq> 0"
    using that mode by (simp add: compensate_staged)
  have 1: "fst (update_sensor_data io s) = Inl ZeroDivisionError
            \<and> fst (pressure io s) = Inl ZeroDivisionError
            \<and> fst (temperature io s) = Inl ZeroDivisionError
            \<and> fst (altitude io s) = Inl ZeroDivisionError"
    if h: "code_x1 s ut + self_md s = 0 \<or> code_b4 s (code_b5 s ut) = 0"
    using bad [OF h]
    by (cases "compensate ut up s")
       (simp add: upd pressure_def temperature_def altitude_def)
  have 2: "fst (update_sensor_data io s) = Inr ()
            \<and> fst (temperature io s) =
                  Inr (Some (real_of_int ((code_b5 s ut + 8) div 2 ^ 4) / 10))
            \<and> fst (pressure io s) =
                  Inr (Some (real_of_int (code_tail s (code_b3 s (code_b5 s ut))
                               (code_b4 s (code_b5 s ut)) up) / 100))"
    if h: "code_x1 s ut + self_md s \<noteq> 0 \<and> code_b4 s (code_b5 s ut) \<noteq> 0"
    by (simp add: upd good [OF h] pressure_def temperature_def with_temperature_def)
  show ?thesis
    using 1 2 by blast
qed

text \<open>
  The reference device at UT = 20285, where x1 + MD = 0; the reference device with
  AC4 = 0, where b4 = 0; the worked example, where the divisors are 7611 and 33457.
\<close>

theorem divisions_unguarded_witness:
  "self_os_mode reference_device \<in> {0, 1, 2, 3} \<and>
   code_x1 reference_device 20285 + self_md reference_device = 0 \<and>
   fst (pressure (answers [0x4F, 0x3D] [0x5D, 0x23, 0x00]) reference_device)
     = Inl ZeroDivisionError \<and>
   self_os_mode zero_ac4_device \<in> {0, 1, 2, 3} \<and>
   code_x1 zero_ac4_device 27898 + self_md zero_ac4_device \<noteq> 0 \<and>
   code_b4 zero_ac4_device (code_b5 zero_ac4_device 27898) = 0 \<and>
   fst (pressure (answers [0x6C, 0xFA] [0x5D, 0x23, 0x00]) zero_ac4_device)
     = Inl ZeroDivisionError \<and>
   code_x1 reference_device 27898 + self_md reference_device \<noteq> 0 \<and>
   code_b4 reference_device (code_b5 reference_device 27898) \<noteq> 0 \<and>
   fst (update_sensor_data (answers [0x6C, 0xFA] [0x5D, 0x23, 0x00]) reference_device)
     = Inr ()"
proof -
  have m1: "self_os_mode reference_device \<in> {0, 1, 2, 3}"
    by (simp add: reference_device_def OS_MODE_SINGLE_def)
  have m2: "self_os_mode zero_ac4_device \<in> {0, 1, 2, 3}"
    by (simp add: zero_ac4_device_def reference_device_def OS_MODE_SINGLE_def)
  show ?thesis
    using divisions_unguarded [OF m1 zero_divisor_read_raw]
      divisions_unguarded [OF m2 zero_ac4_read_raw]
      divisions_unguarded [OF m1 reference_read_raw]
      m1 m2
    by (simp add: reference_divisors)
qed


section \<open>The altitude\<close>







section \<open>The pressure pipeline\<close>

lemma code_b3_summed: "code_b3 s (spec_B5 s UT) = summed_B3 s UT"
  by (simp add: code_b3_def summed_B3_def spec_B6_def Let_def)

lemma code_b4_plain:
  assumes "B1_term_flat s UT = B1_term_spec s UT"
  shows "code_b4 s (spec_B5 s UT) = plain_B4 s UT"
  using assms
  by (simp add: code_b4_def plain_B4_def spec_X3_def spec_B6_def B1_term_flat_def
      B1_term_spec_def Let_def)

lemma code_tail_plain: "code_tail s b3 b4 up = plain_tail s b3 b4 up"
  by (simp add: code_tail_def plain_tail_def power2_eq_square Let_def)

lemma regrouped_read_raw:
  "read_raw (answers [0x69, 0x78] [0x5D, 0x23, 0x00]) reference_device = Inr (27000, 23843)"
  by (simp add: read_raw_answers reference_device_def OS_MODE_SINGLE_def)

lemma regrouped_compensate:
  "compensate 27000 23843 reference_device =
     (Inr (), reference_device\<lparr>self_temperature := Some (74 / 10),
                               self_pressure := Some (68774 / 100)\<rparr>)"
  by (simp add: compensate_def reference_device_def OS_MODE_SINGLE_def Let_def)

lemma regrouped_values:
  "spec_X1 reference_device 27000 + self_md reference_device = 6713"
  "spec_B3 reference_device 27000 = 433"
  "summed_B3 reference_device 27000 = 434"
  "B1_term_flat reference_device 27000 = 182"
  "B1_term_spec reference_device 27000 = 182"
  "spec_B4 reference_device 27000 = 34019"
  "plain_B4 reference_device 27000 = 34019"
  by (simp_all add: spec_B3_def summed_B3_def B1_term_flat_def B1_term_spec_def spec_X3_def
      spec_B4_def plain_B4_def spec_B6_def spec_B5_def spec_X1_def spec_X2_def unsigned_def
      reference_device_def OS_MODE_SINGLE_def Let_def)

lemma regrouped_spec:
  "spec_pressurePa reference_device 27000 23843 = 68777 / 100"
proof -
  have m: "self_os_mode reference_device = 0"
    by (simp add: reference_device_def OS_MODE_SINGLE_def)
  show ?thesis
    by (simp add: spec_pressurePa_def spec_tail_def regrouped_values unsigned_def m Let_def)
qed

text \<open>
  Claim C2, as the driver has it. In the four modes and with both divisors nonzero,
  the pressure the compensation stores is that of the pipeline in which the first X3
  is (B2 * (B6*B6 >> 12) + AC2 * B6) >> 11, the products added before the one
  shift, on unbounded signed integers without casts, on every input where the B1
  term is the same in both groupings: ((B1 * (B6*B6)) >> 12) >> 16 =
  (B1 * (B6*B6 >> 12)) >> 16. Nothing is said of the inputs where the two differ.
\<close>

theorem pressure_pipeline_summed:
  assumes "self_os_mode s \<in> {0, 1, 2, 3}"
    and "spec_X1 s UT + self_md s \<noteq> 0"
    and "plain_B4 s UT \<noteq> 0"
    and "B1_term_flat s UT = B1_term_spec s UT"
  shows "compensate UT UP s =
           (Inr (), s\<lparr>self_temperature := Some (spec_temperatureC s UT),
                      self_pressure := Some (summed_pressure s UT UP)\<rparr>)"
proof -
  have mode: "\<not> self_os_mode s < 0"
    using assms(1) by auto
  have temp: "with_temperature s UT = s\<lparr>self_temperature := Some (spec_temperatureC s UT)\<rparr>"
    by (simp add: with_temperature_def code_b5_spec spec_B5_def spec_temperatureC_def
        spec_T_def drop_bit_eq_div)
  have b4: "code_b4 s (spec_B5 s UT) = plain_B4 s UT"
    using assms(4) by (rule code_b4_plain)
  show ?thesis
    using assms(2,3) mode
    by (simp add: compensate_staged code_x1_spec code_b5_spec b4 code_b3_summed
        code_tail_plain temp summed_pressure_def)
qed

text \<open>
  The reference device at UT = 27000 and UP = 23843: B3 is 434, and the stored
  pressure 687.74.
\<close>

theorem pressure_pipeline_summed_witness:
  "self_os_mode reference_device \<in> {0, 1, 2, 3} \<and>
   spec_X1 reference_device 27000 + self_md reference_device \<noteq> 0 \<and>
   plain_B4 reference_device 27000 \<noteq> 0 \<and>
   B1_term_flat reference_device 27000 = B1_term_spec reference_device 27000 \<and>
   summed_pressure reference_device 27000 23843 = 68774 / 100 \<and>
   compensate 27000 23843 reference_device =
     (Inr (), reference_device\<lparr>self_temperature := Some (74 / 10),
                               self_pressure := Some (68774 / 100)\<rparr>)"
proof -
  have m: "self_os_mode reference_device \<in> {0, 1, 2, 3}"
    by (simp add: reference_device_def OS_MODE_SINGLE_def)
  have d1: "spec_X1 reference_device 27000 + self_md reference_device \<noteq> 0"
    by (simp add: regrouped_values)
  have d2: "plain_B4 reference_device 27000 \<noteq> 0"
    by (simp add: regrouped_values)
  have b1: "B1_term_flat reference_device 27000 = B1_term_spec reference_device 27000"
    by (simp add: regrouped_values)
  have "Some (summed_pressure reference_device 27000 23843) = Some (68774 / 100)"
    using pressure_pipeline_summed [OF m d1 d2 b1, of 23843] regrouped_compensate
    by (simp add: bmp180.ext_inject bmp180.update_convs reference_device_def)
  then show ?thesis
    using m d1 d2 b1 regrouped_compensate by simp
qed

text \<open>
  Claim C2 as the specification words it fails. For the reference device at
  UT = 27000 and UP = 23843 the specification's pipeline, which shifts the two
  products before adding them, has B3 = 433 and ends in 687.77; the driver stores
  687.74.
\<close>

theorem pressure_differs_from_spec_pipeline:
  "self_pressure (snd (compensate 27000 23843 reference_device)) = Some (68774 / 100)
   \<and> spec_pressurePa reference_device 27000 23843 = 68777 / 100
   \<and> self_pressure (snd (compensate 27000 23843 reference_device))
       \<noteq> Some (spec_pressurePa reference_device 27000 23843)"
  by (simp add: regrouped_compensate regrouped_spec)

subsection \<open>The other two departures\<close>

lemma B1_grouping_values:
  "B1_term_flat reference_device 20011 = 78127"
  "B1_term_spec reference_device 20011 = 78126"
  "summed_B3 reference_device 20011 = 300"
  "plain_B4 reference_device 20011 = 26727"
  by (simp_all add: summed_B3_def B1_term_flat_def B1_term_spec_def spec_X3_def
      plain_B4_def spec_B6_def spec_B5_def spec_X1_def spec_X2_def
      reference_device_def OS_MODE_SINGLE_def Let_def)

text \<open>
  The hypothesis on the B1 term cannot be dropped. For the reference device at
  UT = 20011 the two groupings give 78127 and 78126, and the stored pressure is
  880.44 where the pipeline above ends in 880.47.
\<close>

lemma B1_grouping_matters:
  "B1_term_flat reference_device 20011 \<noteq> B1_term_spec reference_device 20011
   \<and> self_pressure (snd (compensate 20011 23843 reference_device)) = Some (88044 / 100)
   \<and> summed_pressure reference_device 20011 23843 = 88047 / 100"
proof -
  have m: "self_os_mode reference_device = 0"
    by (simp add: reference_device_def OS_MODE_SINGLE_def)
  have code: "self_pressure (snd (compensate 20011 23843 reference_device)) = Some (88044 / 100)"
    by (simp add: compensate_def reference_device_def OS_MODE_SINGLE_def Let_def)
  have pipe: "summed_pressure reference_device 20011 23843 = 88047 / 100"
    by (simp add: summed_pressure_def plain_tail_def B1_grouping_values m Let_def)
  show ?thesis
    using code pipe by (simp add: B1_grouping_values)
qed

lemma cast_values:
  "spec_X3 cast_device 27898 + 32768 = - 2581"
  "spec_B3 cast_device 27898 = 3331"
  "spec_B4 cast_device 27898 = 4291425773"
  "plain_B4 cast_device 27898 = - 2579"
  by (simp_all add: spec_B3_def spec_B4_def spec_X3_def plain_B4_def spec_B6_def spec_B5_def
      spec_X1_def spec_X2_def unsigned_def cast_device_def reference_device_def
      OS_MODE_SINGLE_def Let_def)

text \<open>
  Nor can the pipeline keep the casts. With AC3 = 32767 and MD = -4600, at
  UT = 27898, X3 + 32768 is -2581: the driver divides by B4 = -2579 and stores
  -7615.66, where the 32-bit cast makes B4 4291425773 and the pressure 2.36.
\<close>

lemma unsigned_cast_matters:
  "unsigned (spec_X3 cast_device 27898 + 32768) \<noteq> spec_X3 cast_device 27898 + 32768
   \<and> self_pressure (snd (compensate 27898 23843 cast_device)) = Some (- 761566 / 100)
   \<and> spec_pressurePa cast_device 27898 23843 = 236 / 100"
proof -
  have m: "self_os_mode cast_device = 0"
    by (simp add: cast_device_def reference_device_def OS_MODE_SINGLE_def)
  have code: "self_pressure (snd (compensate 27898 23843 cast_device)) = Some (- 761566 / 100)"
    by (simp add: compensate_def cast_device_def reference_device_def OS_MODE_SINGLE_def Let_def)
  have pipe: "spec_pressurePa cast_device 27898 23843 = 236 / 100"
    by (simp add: spec_pressurePa_def spec_tail_def cast_values unsigned_def m Let_def)
  show ?thesis
    using code pipe by (simp add: cast_values unsigned_def)
qed

end
